theory Spec2Isabelle
  imports Main "HOL-Library.Multiset"
begin

section \<open>Split learning: the client-side algorithm of \<^verbatim>\<open>algorithms/split_learning.py\<close>\<close>

text \<open>
  The development follows \<^verbatim>\<open>src/algorithms/split_learning.py\<close>. Every tensor of
  the program (an image, a label, an activation, a gradient) is a value of one type
  \<open>'t\<close>; a batched tensor is the list of its rows, so \<^verbatim>\<open>x.shape[0]\<close> is the
  length of the list and \<^verbatim>\<open>x[i]\<close> its \<open>i\<close>-th row.
\<close>

subsection \<open>Python values: exceptions, list indexing\<close>

datatype py_error = IndexError | KeyError | ValueError | RuntimeError

text \<open>\<^verbatim>\<open>xs[i]\<close> on a Python list: an index from \<open>-len\<close> to \<open>-1\<close> counts from the
  end, any index outside \<open>-len .. len-1\<close> raises \<^verbatim>\<open>IndexError\<close>.\<close>

definition list_getitem :: "'a list \<Rightarrow> int \<Rightarrow> py_error + 'a" where
  "list_getitem xs i =
     (if 0 \<le> i \<and> i < int (length xs) then Inr (xs ! nat i)
      else if i < 0 \<and> - int (length xs) \<le> i then Inr (xs ! nat (int (length xs) + i))
      else Inl IndexError)"

subsection \<open>The collaborators: datasets, data loaders, the trainer, the network\<close>

text \<open>
  A map-style dataset answers \<^verbatim>\<open>len(d)\<close> and \<^verbatim>\<open>d[i]\<close>; a sample is the
  sequence of its fields (image first, label second). A batch, as a data loader yields
  it, is the sequence of its fields, each one batched. Iterating a data loader produces
  one batch after the other and may raise while producing one: the loader is the list
  of these outcomes, consumed from the left.
\<close>

record 't Dataset =
  ds_len :: nat
  ds_getitem :: "nat \<Rightarrow> py_error + 't list"

type_synonym 't batch = "'t list list"

type_synonym 't data_loader = "(py_error + 't batch) list"

text \<open>The trainer may or may not have a \<^verbatim>\<open>train_loader\<close> method
  (\<^verbatim>\<open>getattr(self.trainer, "train_loader", None)\<close> followed by \<^verbatim>\<open>callable\<close>); its
  arguments are \<^verbatim>\<open>batch_size\<close>, \<^verbatim>\<open>trainset\<close>, \<^verbatim>\<open>sampler\<close> and
  \<^verbatim>\<open>extract_features\<close>.\<close>

record 't Trainer =
  train_loader :: "(nat \<Rightarrow> 't Dataset \<Rightarrow> nat list \<Rightarrow> bool \<Rightarrow> py_error + 't data_loader) option"

text \<open>The network: its registry of named layers (a layer is named by a number here)
  and the partial forward pass up to a layer, on a batch of inputs.\<close>

record 't Model =
  layerdict :: "string \<rightharpoonup> nat"
  forward_to :: "'t list \<Rightarrow> string \<Rightarrow> py_error + 't list"

subsection \<open>The algorithm object\<close>

record 't Algorithm =
  trainer :: "'t Trainer"
  model :: "'t Model"
  gradients_list :: "'t list"
  cut_layer_gradients :: "'t option"

text \<open>\<^verbatim>\<open>__init__\<close>: no gradient received, none loaded at the cut layer.\<close>

definition Algorithm_init :: "'t Trainer \<Rightarrow> 't Model \<Rightarrow> 't Algorithm" where
  "Algorithm_init tr m =
     \<lparr>trainer = tr, model = m, gradients_list = [], cut_layer_gradients = None\<rparr>"

text \<open>\<^verbatim>\<open>load_gradients\<close> on values: a HOL value has no identity, so the deep copy of
  a list of tensors is that list. The copy on a store of mutable objects is
  \<open>load_gradients_store\<close> below.\<close>

definition load_gradients :: "'t Algorithm \<Rightarrow> 't list \<Rightarrow> 't Algorithm" where
  "load_gradients self gradients = self\<lparr>gradients_list := gradients\<rparr>"

subsection \<open>The torch data loader\<close>

text \<open>
  \<^verbatim>\<open>torch.utils.data.DataLoader(dataset, batch_size=B, sampler=S)\<close> is library code; its
  documented behaviour is modelled: a batch size that is not positive is refused when the
  loader is built (\<^verbatim>\<open>ValueError\<close>); the indices the sampler yields are cut into
  consecutive groups of \<open>B\<close>, the last one possibly shorter (\<^verbatim>\<open>drop_last=False\<close>);
  a batch is made by fetching \<^verbatim>\<open>dataset[i]\<close> for each index of its group, in order,
  and collating the samples field by field, which requires all samples of the batch to
  have the same number of fields (\<^verbatim>\<open>RuntimeError\<close> otherwise).
\<close>

function batch_sampler :: "nat \<Rightarrow> nat list \<Rightarrow> nat list list" where
  "batch_sampler B idxs =
     (if B = 0 \<or> idxs = [] then [] else take B idxs # batch_sampler B (drop B idxs))"
  by pat_completeness auto
termination
  by (relation "measure (\<lambda>(B, idxs). length idxs)") auto

declare batch_sampler.simps [simp del]

fun fetch :: "'t Dataset \<Rightarrow> nat list \<Rightarrow> py_error + 't list list" where
  "fetch d [] = Inr []"
| "fetch d (i # is) =
     (case ds_getitem d i of
        Inl e \<Rightarrow> Inl e
      | Inr sample \<Rightarrow> (case fetch d is of Inl e \<Rightarrow> Inl e | Inr samples \<Rightarrow> Inr (sample # samples)))"

definition default_collate :: "'t list list \<Rightarrow> py_error + 't batch" where
  "default_collate samples =
     (case samples of
        [] \<Rightarrow> Inr []
      | s # ss \<Rightarrow>
          if list_all (\<lambda>s'. length s' = length s) ss
          then Inr (map (\<lambda>k. map (\<lambda>s'. s' ! k) samples) [0..<length s])
          else Inl RuntimeError)"

definition DataLoader :: "'t Dataset \<Rightarrow> nat \<Rightarrow> nat list \<Rightarrow> py_error + 't data_loader" where
  "DataLoader d B idxs =
     (if B = 0 then Inl ValueError
      else Inr (map (\<lambda>group. case fetch d group of Inl e \<Rightarrow> Inl e | Inr samples \<Rightarrow> default_collate samples)
                  (batch_sampler B idxs)))"

text \<open>The choice both \<^verbatim>\<open>extract_features\<close> and \<^verbatim>\<open>complete_train\<close> make: the
  trainer's own loader when it has one (called with \<^verbatim>\<open>extract_features=True\<close>), the
  torch loader otherwise. The two callers differ in the batch size they pass in each
  branch, so both sizes are arguments.\<close>

definition get_data_loader ::
  "'t Trainer \<Rightarrow> nat \<Rightarrow> nat \<Rightarrow> 't Dataset \<Rightarrow> nat list \<Rightarrow> py_error + 't data_loader" where
  "get_data_loader tr own_size torch_size d idxs =
     (case train_loader tr of
        Some f \<Rightarrow> f own_size d idxs True
      | None \<Rightarrow> DataLoader d torch_size idxs)"

subsection \<open>\<^verbatim>\<open>FeatureDataset\<close> and \<^verbatim>\<open>train\<close>\<close>

text \<open>
  Lines 19 to 29. The wrapper keeps the dataset it is given (its attribute
  \<^verbatim>\<open>self.dataset\<close> is the field \<open>self_dataset\<close>); \<^verbatim>\<open>__len__\<close> asks the
  dataset; \<^verbatim>\<open>__getitem__\<close> fetches \<^verbatim>\<open>self.dataset[item]\<close>, unpacks it into exactly
  two names (a sample of another length makes the unpacking raise \<^verbatim>\<open>ValueError\<close>) and
  returns the pair. The source's name \<^verbatim>\<open>image\<close> is written \<open>img\<close>, since \<open>image\<close>
  is a constant of HOL.
\<close>

record 't FeatureDataset =
  self_dataset :: "'t Dataset"

definition FeatureDataset_init :: "'t Dataset \<Rightarrow> 't FeatureDataset" where
  "FeatureDataset_init dataset = \<lparr>self_dataset = dataset\<rparr>"

definition FeatureDataset_len :: "'t FeatureDataset \<Rightarrow> nat" where
  "FeatureDataset_len self = ds_len (self_dataset self)"

definition FeatureDataset_getitem :: "'t FeatureDataset \<Rightarrow> nat \<Rightarrow> py_error + 't \<times> 't" where
  "FeatureDataset_getitem self item =
     (case ds_getitem (self_dataset self) item of
        Inl e \<Rightarrow> Inl e
      | Inr sample \<Rightarrow>
          (case sample of
             [img, label] \<Rightarrow> Inr (img, label)
           | _ \<Rightarrow> Inl ValueError))"

text \<open>Lines 153 to 154: \<^verbatim>\<open>train\<close> makes one call, \<^verbatim>\<open>self.trainer.train\<close>, on the
  wrapped training set, the sampler and the cut layer. The call is the result.\<close>

datatype 't trainer_call = TrainerTrain "'t FeatureDataset" "nat list" "string option"

definition train :: "'t Algorithm \<Rightarrow> 't Dataset \<Rightarrow> nat list \<Rightarrow> string option \<Rightarrow> 't trainer_call" where
  "train self trainset sampler cut_layer = TrainerTrain (FeatureDataset_init trainset) sampler cut_layer"

subsection \<open>\<^verbatim>\<open>extract_features\<close>\<close>

text \<open>
  Lines 47 to 87. The inner loop runs \<open>i\<close> over \<^verbatim>\<open>np.arange(logits.shape[0])\<close> and
  appends \<^verbatim>\<open>(logits[i], targets[i])\<close>; a read beyond the rows of \<^verbatim>\<open>targets\<close> raises.
\<close>

fun rows :: "'t list \<Rightarrow> 't list \<Rightarrow> nat list \<Rightarrow> py_error + ('t \<times> 't) list" where
  "rows logits targets [] = Inr []"
| "rows logits targets (i # is) =
     (case list_getitem logits (int i) of
        Inl e \<Rightarrow> Inl e
      | Inr feature \<Rightarrow>
          (case list_getitem targets (int i) of
             Inl e \<Rightarrow> Inl e
           | Inr target \<Rightarrow>
               (case rows logits targets is of
                  Inl e \<Rightarrow> Inl e
                | Inr later \<Rightarrow> Inr ((feature, target) # later))))"

text \<open>The outer loop: each batch is unpacked into \<^verbatim>\<open>inputs, targets, *__\<close>, so it needs
  at least two fields; the network runs up to the cut layer on the inputs; an exception
  anywhere ends the function, and nothing is returned then.\<close>

fun feature_loop :: "'t Model \<Rightarrow> string \<Rightarrow> 't data_loader \<Rightarrow> py_error + ('t \<times> 't) list" where
  "feature_loop m cut_layer [] = Inr []"
| "feature_loop m cut_layer (Inl e # rest) = Inl e"
| "feature_loop m cut_layer (Inr b # rest) =
     (case b of
        inputs # targets # others \<Rightarrow>
          (case forward_to m inputs cut_layer of
             Inl e \<Rightarrow> Inl e
           | Inr logits \<Rightarrow>
               (case rows logits targets [0..<length logits] of
                  Inl e \<Rightarrow> Inl e
                | Inr batch_features \<Rightarrow>
                    (case feature_loop m cut_layer rest of
                       Inl e \<Rightarrow> Inl e
                     | Inr later \<Rightarrow> Inr (batch_features @ later))))
      | _ \<Rightarrow> Inl ValueError)"

text \<open>The function: the loader is the trainer's own, asked for batch size 1, or the torch
  loader with the batch size of the global configuration
  (\<^verbatim>\<open>Config().trainer.batch_size\<close>, an argument here). Putting the network in evaluation
  mode and logging do not enter the result.\<close>

definition extract_features ::
  "'t Algorithm \<Rightarrow> nat \<Rightarrow> 't Dataset \<Rightarrow> nat list \<Rightarrow> string \<Rightarrow> py_error + ('t \<times> 't) list" where
  "extract_features self config_batch_size dataset sampler cut_layer =
     (case get_data_loader (trainer self) 1 config_batch_size dataset sampler of
        Inl e \<Rightarrow> Inl e
      | Inr data_loader \<Rightarrow> feature_loop (model self) cut_layer data_loader)"

subsection \<open>\<^verbatim>\<open>complete_train\<close>\<close>

text \<open>
  What \<^verbatim>\<open>complete_train\<close> does is a sequence of calls on its collaborators and of
  reads of \<^verbatim>\<open>self.gradients_list\<close>. The model records them in order:
  \<^item> \<open>RegisterBackwardHook c\<close>: \<^verbatim>\<open>self.model.layerdict[c].register_backward_hook(self.apply_gradients)\<close>;
  \<^item> \<open>ModelTrain\<close>: \<^verbatim>\<open>self.model.train()\<close>;
  \<^item> \<open>GetGradient i\<close>: the read \<^verbatim>\<open>self.gradients_list[i]\<close>;
  \<^item> \<open>ZeroGrad\<close>: \<^verbatim>\<open>optimizer.zero_grad()\<close>;
  \<^item> \<open>Forward examples\<close>: \<^verbatim>\<open>outputs = self.model(examples)\<close>;
  \<^item> \<open>LossCriterion labels\<close>: \<^verbatim>\<open>loss = loss_criterion(outputs, labels)\<close>;
  \<^item> \<open>Backward g\<close>: \<^verbatim>\<open>loss.backward()\<close>, during which the hook registered at the cut
    layer runs and finds \<open>g\<close> in \<^verbatim>\<open>self.cut_layer_gradients\<close>;
  \<^item> \<open>OptimizerStep\<close>: \<^verbatim>\<open>optimizer.step()\<close>.

  The loss criterion and the optimizer are built before the loop from whichever accessor
  the object has; building them reads no gradient and takes no branch of the loop, and
  they appear in the record through the calls made on them. The calls on the network and
  the optimizer are taken to return; the exceptions modelled are those of the function's
  own lookups and of the data loader.
\<close>

datatype 't event =
    RegisterBackwardHook string
  | ModelTrain
  | GetGradient int
  | ZeroGrad
  | Forward "'t list"
  | LossCriterion "'t list"
  | Backward "'t option"
  | OptimizerStep

text \<open>A run: the object as the run leaves it, the calls made, and the exception that
  ended the run, if one did.\<close>

record 't run =
  self_after :: "'t Algorithm"
  calls :: "'t event list"
  raised :: "py_error option"

definition returns :: "'t Algorithm \<Rightarrow> 't event list \<Rightarrow> 't run" where
  "returns self evs = \<lparr>self_after = self, calls = evs, raised = None\<rparr>"

definition raises :: "'t Algorithm \<Rightarrow> 't event list \<Rightarrow> py_error \<Rightarrow> 't run" where
  "raises self evs e = \<lparr>self_after = self, calls = evs, raised = Some e\<rparr>"

definition preceded_by :: "'t event list \<Rightarrow> 't run \<Rightarrow> 't run" where
  "preceded_by evs r = r\<lparr>calls := evs @ calls r\<rparr>"

text \<open>
  The batch loop, lines 131 to 145. The loop header unpacks each batch into exactly
  \<^verbatim>\<open>(examples, labels)\<close>. After the optimizer step the index moves on when it is below
  \<^verbatim>\<open>len(self.gradients_list) - 1\<close> (an integer subtraction), and the gradient for the
  next batch is read at the index.
\<close>

fun batch_loop :: "'t Algorithm \<Rightarrow> int \<Rightarrow> 't data_loader \<Rightarrow> 't run" where
  "batch_loop self gradients_index [] = returns self []"
| "batch_loop self gradients_index (Inl e # rest) = raises self [] e"
| "batch_loop self gradients_index (Inr b # rest) =
     (case b of
        [examples, labels] \<Rightarrow>
          (let step = [ZeroGrad, Forward examples, LossCriterion labels,
                       Backward (cut_layer_gradients self), OptimizerStep];
               gradients_index =
                 (if gradients_index < int (length (gradients_list self)) - 1
                  then gradients_index + 1 else gradients_index)
           in case list_getitem (gradients_list self) gradients_index of
                Inl e \<Rightarrow> raises self (step @ [GetGradient gradients_index]) e
              | Inr g \<Rightarrow>
                  preceded_by (step @ [GetGradient gradients_index])
                    (batch_loop (self\<lparr>cut_layer_gradients := Some g\<rparr>) gradients_index rest))
      | _ \<Rightarrow> raises self [] ValueError)"

text \<open>The function, lines 89 to 145: the hook is registered at
  \<^verbatim>\<open>layerdict[cut_layer]\<close>, the network is put in training mode, the batch size is
  read from \<^verbatim>\<open>config['batch_size']\<close>, the loader is chosen, the first gradient is read
  at index 0 with the index set to 1, and the loop runs.\<close>

definition complete_train ::
  "'t Algorithm \<Rightarrow> (string \<rightharpoonup> nat) \<Rightarrow> 't Dataset \<Rightarrow> nat list \<Rightarrow> string \<Rightarrow> 't run" where
  "complete_train self config dataset sampler cut_layer =
     (case layerdict (model self) cut_layer of
        None \<Rightarrow> raises self [] KeyError
      | Some layer \<Rightarrow>
          (case config ''batch_size'' of
             None \<Rightarrow> raises self [RegisterBackwardHook cut_layer, ModelTrain] KeyError
           | Some batch_size \<Rightarrow>
               (case get_data_loader (trainer self) batch_size batch_size dataset sampler of
                  Inl e \<Rightarrow> raises self [RegisterBackwardHook cut_layer, ModelTrain] e
                | Inr data_loader \<Rightarrow>
                    preceded_by [RegisterBackwardHook cut_layer, ModelTrain, GetGradient 0]
                      (case list_getitem (gradients_list self) 0 of
                         Inl e \<Rightarrow> raises self [] e
                       | Inr g \<Rightarrow> batch_loop (self\<lparr>cut_layer_gradients := Some g\<rparr>) 1 data_loader))))"

text \<open>The gradient each backward pass of a run found loaded at the cut layer, batch by
  batch.\<close>

fun applied :: "'t event list \<Rightarrow> 't option list" where
  "applied [] = []"
| "applied (Backward g # evs) = g # applied evs"
| "applied (_ # evs) = applied evs"

text \<open>The batches a run passed to the network, in order.\<close>

fun forwarded :: "'t event list \<Rightarrow> 't list list" where
  "forwarded [] = []"
| "forwarded (Forward x # evs) = x # forwarded evs"
| "forwarded (_ # evs) = forwarded evs"

text \<open>
  The shape of the calls of the batch loop, for stating in which order an iteration makes
  them: a sequence of iterations, each one \<^verbatim>\<open>zero_grad\<close>, forward pass, loss,
  backward pass, optimizer step and then the read of the gradient list at the index that
  the rule \<open>adv\<close> gives from the index before. The rule of the code is its guard,
  which moves the index on when it is below the last index of the list.
\<close>

definition advance_below_last :: "int \<Rightarrow> int \<Rightarrow> int" where
  "advance_below_last n idx = (if idx < n - 1 then idx + 1 else idx)"

inductive iterations :: "(int \<Rightarrow> int) \<Rightarrow> int \<Rightarrow> 't event list \<Rightarrow> bool" for adv where
  no_more: "iterations adv idx []"
| one_more: "iterations adv (adv idx) evs \<Longrightarrow>
     iterations adv idx
       (ZeroGrad # Forward x # LossCriterion y # Backward g # OptimizerStep # GetGradient (adv idx) # evs)"

subsection \<open>\<^verbatim>\<open>apply_gradients\<close>, the hook at the cut layer\<close>

text \<open>
  Lines 156 to 162. The body assigns to its parameter \<^verbatim>\<open>grad_output\<close> when a gradient
  is loaded and ends without a \<^verbatim>\<open>return\<close> statement. An assignment to a parameter
  rebinds the name inside the call: the caller's tensor is not written to, and what the
  caller receives is the returned value, \<^verbatim>\<open>None\<close>. The model keeps both: the value
  returned and the binding of \<^verbatim>\<open>grad_output\<close> when the body ends. The object is not
  changed by the call.
\<close>

record 't hook_exit =
  returned :: "'t option"
  grad_output_at_exit :: "'t"

definition apply_gradients :: "'t Algorithm \<Rightarrow> nat \<Rightarrow> 't \<Rightarrow> 't \<Rightarrow> 't hook_exit" where
  "apply_gradients self module grad_input grad_output =
     (let grad_output = (case cut_layer_gradients self of None \<Rightarrow> grad_output | Some g \<Rightarrow> g)
      in \<lparr>returned = None, grad_output_at_exit = grad_output\<rparr>)"

text \<open>
  How the autograd engine of the library uses a hook registered with
  \<^verbatim>\<open>register_backward_hook\<close>, from the library's documentation: the hook is called with
  the module, the gradient with respect to the layer's input and the gradient with respect
  to its output; it must not modify its arguments; when it returns a value, that value is
  used in place of the gradient with respect to the input in what follows, and when it
  returns \<^verbatim>\<open>None\<close> the computed gradients are used. The result is the pair of
  gradients the backward pass goes on with: the one that propagates further back, and the
  layer's gradient-output.
\<close>

definition backward_hook_call ::
  "(nat \<Rightarrow> 't \<Rightarrow> 't \<Rightarrow> 't hook_exit) \<Rightarrow> nat \<Rightarrow> 't \<Rightarrow> 't \<Rightarrow> 't \<times> 't" where
  "backward_hook_call hook module grad_input grad_output =
     (case returned (hook module grad_input grad_output) of
        None \<Rightarrow> (grad_input, grad_output)
      | Some new_grad_input \<Rightarrow> (new_grad_input, grad_output))"

text \<open>
  The backward passes of a run at the cut layer. The hook that \<^verbatim>\<open>complete_train\<close>
  registered there is \<^verbatim>\<open>self.apply_gradients\<close>; in the backward pass recorded as
  \<open>Backward g\<close> the object has \<open>g\<close> in \<^verbatim>\<open>cut_layer_gradients\<close>, and the engine calls
  the hook on the gradients it computed for the layer in that pass. The computed gradients
  are given pass by pass, as pairs (with respect to the input, with respect to the
  output); the result lists, pass by pass, the pair the backward pass goes on with.
\<close>

fun backward_passes ::
  "'t Algorithm \<Rightarrow> nat \<Rightarrow> ('t \<times> 't) list \<Rightarrow> 't event list \<Rightarrow> ('t \<times> 't) list" where
  "backward_passes self module computed [] = []"
| "backward_passes self module [] (Backward g # evs) = []"
| "backward_passes self module ((grad_input, grad_output) # computed) (Backward g # evs) =
     backward_hook_call (apply_gradients (self\<lparr>cut_layer_gradients := g\<rparr>)) module grad_input grad_output
       # backward_passes self module computed evs"
| "backward_passes self module computed (_ # evs) = backward_passes self module computed evs"

subsection \<open>\<^verbatim>\<open>load_gradients\<close> on a store of objects\<close>

text \<open>
  Lines 41 to 45: \<^verbatim>\<open>self.gradients_list = deepcopy(gradients)\<close>. Whether the stored
  list shares anything with the caller's depends on the identity of objects, so here the
  objects live in a store: an address is an index into the store, a new object is
  appended at the end. An object is a tensor or a list of references.
\<close>

type_synonym addr = nat

datatype 't pyobj = Tensor 't | PyList "addr list"

type_synonym 't heap = "'t pyobj list"

text \<open>\<^verbatim>\<open>y.append(b)\<close> on the list object at \<open>y\<close>.\<close>

definition list_append :: "'t heap \<Rightarrow> addr \<Rightarrow> addr \<Rightarrow> 't heap" where
  "list_append h y b =
     (if y < length h
      then (case h ! y of PyList items \<Rightarrow> h[y := PyList (items @ [b])] | Tensor t \<Rightarrow> h)
      else h)"

text \<open>
  \<^verbatim>\<open>copy.deepcopy\<close> is library code; its documented behaviour is modelled. An object
  already copied in this call is found in the memo and its copy is returned; a tensor is
  cloned into a new object; a list is copied into a new, empty list, which is entered in
  the memo and then filled with the copies of the items, appended one by one
  (\<open>deepcopy_items\<close>). The first argument bounds the depth of the nested calls, as the
  interpreter's recursion limit does: beyond it the call produces no result. A dangling
  reference produces no result either.
\<close>

fun deepcopy :: "nat \<Rightarrow> 't heap \<Rightarrow> (addr \<rightharpoonup> addr) \<Rightarrow> addr \<Rightarrow> ('t heap \<times> (addr \<rightharpoonup> addr) \<times> addr) option"
  and deepcopy_items ::
    "nat \<Rightarrow> 't heap \<Rightarrow> (addr \<rightharpoonup> addr) \<Rightarrow> addr \<Rightarrow> addr list \<Rightarrow> ('t heap \<times> (addr \<rightharpoonup> addr)) option"
where
  "deepcopy 0 h memo x = None"
| "deepcopy (Suc depth) h memo x =
     (case memo x of
        Some y \<Rightarrow> Some (h, memo, y)
      | None \<Rightarrow>
          if length h \<le> x then None
          else (case h ! x of
                  Tensor t \<Rightarrow> Some (h @ [Tensor t], memo(x \<mapsto> length h), length h)
                | PyList items \<Rightarrow>
                    (case deepcopy_items depth (h @ [PyList []]) (memo(x \<mapsto> length h)) (length h) items of
                       None \<Rightarrow> None
                     | Some (h', memo') \<Rightarrow> Some (h', memo', length h))))"
| "deepcopy_items depth h memo y [] = Some (h, memo)"
| "deepcopy_items depth h memo y (a # items) =
     (case deepcopy depth h memo a of
        None \<Rightarrow> None
      | Some (h', memo', b) \<Rightarrow> deepcopy_items depth (list_append h' y b) memo' y items)"

definition recursion_limit :: nat where
  "recursion_limit = 1000"

text \<open>The attributes of the algorithm object that are references into the store, and
  \<^verbatim>\<open>load_gradients\<close>: a deep copy with a fresh memo, then the attribute is rebound to
  the copy.\<close>

record Algorithm_refs =
  gradients_list_at :: addr
  cut_layer_gradients_at :: "addr option"

definition load_gradients_store ::
  "'t heap \<Rightarrow> Algorithm_refs \<Rightarrow> addr \<Rightarrow> ('t heap \<times> Algorithm_refs) option" where
  "load_gradients_store h self gradients =
     (case deepcopy recursion_limit h Map.empty gradients of
        None \<Rightarrow> None
      | Some (h', memo, y) \<Rightarrow> Some (h', self\<lparr>gradients_list_at := y\<rparr>))"

text \<open>What a reference denotes: the tensor at an address, the tensors at a list of
  addresses, and the sequence of gradients that a reference to a list of tensors stands
  for.\<close>

definition tensor_at :: "'t heap \<Rightarrow> addr \<Rightarrow> 't option" where
  "tensor_at h a =
     (if a < length h then (case h ! a of Tensor t \<Rightarrow> Some t | PyList items \<Rightarrow> None) else None)"

fun tensors_at :: "'t heap \<Rightarrow> addr list \<Rightarrow> 't list option" where
  "tensors_at h [] = Some []"
| "tensors_at h (a # as) =
     (case tensor_at h a of
        None \<Rightarrow> None
      | Some t \<Rightarrow> (case tensors_at h as of None \<Rightarrow> None | Some ts \<Rightarrow> Some (t # ts)))"

definition gradient_sequence :: "'t heap \<Rightarrow> addr \<Rightarrow> 't list option" where
  "gradient_sequence h r =
     (if r < length h then (case h ! r of PyList items \<Rightarrow> tensors_at h items | Tensor t \<Rightarrow> None)
      else None)"

text \<open>What a holder of a reference can do to the object behind it: overwrite a tensor
  in place, or change the items of a list (append, delete, assign, clear).\<close>

datatype 't mutation = SetTensor addr 't | SetItems addr "addr list"

fun target :: "'t mutation \<Rightarrow> addr" where
  "target (SetTensor a t) = a"
| "target (SetItems a items) = a"

fun mutate :: "'t heap \<Rightarrow> 't mutation \<Rightarrow> 't heap" where
  "mutate h (SetTensor a t) =
     (if a < length h then (case h ! a of Tensor u \<Rightarrow> h[a := Tensor t] | PyList items \<Rightarrow> h) else h)"
| "mutate h (SetItems a items) =
     (if a < length h then (case h ! a of PyList old \<Rightarrow> h[a := PyList items] | Tensor u \<Rightarrow> h) else h)"

subsection \<open>A small configuration, for evaluating the definitions\<close>

text \<open>A trainer without a loader of its own, a network with one named layer whose
  partial forward pass returns its input, and a dataset of three samples
  \<open>(100 + i, 200 + i)\<close>.\<close>

definition example_trainer :: "nat Trainer" where
  "example_trainer = \<lparr>train_loader = None\<rparr>"

definition example_model :: "nat Model" where
  "example_model = \<lparr>layerdict = [''conv2'' \<mapsto> 0], forward_to = (\<lambda>xs c. Inr xs)\<rparr>"

definition example_dataset :: "nat Dataset" where
  "example_dataset =
     \<lparr>ds_len = 3, ds_getitem = (\<lambda>i. if i < 3 then Inr [100 + i, 200 + i] else Inl IndexError)\<rparr>"

definition example_self :: "nat Algorithm" where
  "example_self = Algorithm_init example_trainer example_model"

text \<open>A store with the algorithm's initial, empty list at address 0, a caller's list
  of two tensors at address 3 and a second list, at address 5, holding the same tensor
  twice.\<close>

definition example_store :: "nat heap" where
  "example_store = [PyList [], Tensor 10, Tensor 11, PyList [1, 2], Tensor 12, PyList [4, 4]]"

definition example_refs :: Algorithm_refs where
  "example_refs = \<lparr>gradients_list_at = 0, cut_layer_gradients_at = None\<rparr>"

section \<open>Properties\<close>

subsection \<open>The small configuration\<close>

lemma example_loader:
  "get_data_loader (trainer example_self) 1 1 example_dataset [0, 1, 2] =
     Inr [Inr [[100], [200]], Inr [[101], [201]], Inr [[102], [202]]]"
  by (simp add: get_data_loader_def example_self_def Algorithm_init_def example_trainer_def
      DataLoader_def batch_sampler.simps example_dataset_def default_collate_def)

lemma example_layer: "layerdict (model example_self) ''conv2'' = Some 0"
  by (simp add: example_self_def Algorithm_init_def example_model_def)

lemma example_config: "[''batch_size'' \<mapsto> (1::nat)] ''batch_size'' = Some 1"
  by simp

subsection \<open>The run of \<^verbatim>\<open>complete_train\<close> from its loop\<close>

lemma complete_train_from_loop:
  assumes "layerdict (model self) cut_layer = Some layer"
    and "config ''batch_size'' = Some batch_size"
    and "get_data_loader (trainer self) batch_size batch_size dataset sampler = Inr data_loader"
  shows "complete_train self config dataset sampler cut_layer =
     preceded_by [RegisterBackwardHook cut_layer, ModelTrain, GetGradient 0]
       (case list_getitem (gradients_list self) 0 of
          Inl e \<Rightarrow> raises self [] e
        | Inr g \<Rightarrow> batch_loop (self\<lparr>cut_layer_gradients := Some g\<rparr>) 1 data_loader)"
  using assms by (simp add: complete_train_def)

lemma example_run:
  "complete_train (load_gradients example_self gs) [''batch_size'' \<mapsto> 1] example_dataset [0, 1, 2] ''conv2'' =
     preceded_by [RegisterBackwardHook ''conv2'', ModelTrain, GetGradient 0]
       (case list_getitem (gradients_list (load_gradients example_self gs)) 0 of
          Inl e \<Rightarrow> raises (load_gradients example_self gs) [] e
        | Inr g \<Rightarrow>
            batch_loop (load_gradients example_self gs\<lparr>cut_layer_gradients := Some g\<rparr>) 1
              [Inr [[100], [200]], Inr [[101], [201]], Inr [[102], [202]]])"
proof -
  have layer: "layerdict (model (load_gradients example_self gs)) ''conv2'' = Some 0"
    using example_layer by (simp add: load_gradients_def)
  have loader: "get_data_loader (trainer (load_gradients example_self gs)) 1 1 example_dataset [0, 1, 2] =
     Inr [Inr [[100], [200]], Inr [[101], [201]], Inr [[102], [202]]]"
    using example_loader by (simp add: load_gradients_def)
  show ?thesis
    by (rule complete_train_from_loop
          [where config = "[''batch_size'' \<mapsto> 1]", OF layer example_config loader])
qed

lemma gradients_list_batch_loop [simp]:
  "gradients_list (self_after (batch_loop self idx dl)) = gradients_list self"
  by (induction self idx dl rule: batch_loop.induct)
     (auto simp: returns_def raises_def preceded_by_def Let_def split: list.splits sum.splits)

lemma batch_loop_malformed:
  assumes "\<nexists>x y. b = [x, y]"
  shows "batch_loop self idx (Inr b # rest) = raises self [] ValueError"
  using assms by (auto split: list.splits)

lemma batch_loop_pair:
  "batch_loop self idx (Inr [x, y] # rest) =
     (case list_getitem (gradients_list self) (advance_below_last (int (length (gradients_list self))) idx) of
        Inl e \<Rightarrow>
          raises self
            [ZeroGrad, Forward x, LossCriterion y, Backward (cut_layer_gradients self), OptimizerStep,
             GetGradient (advance_below_last (int (length (gradients_list self))) idx)] e
      | Inr g \<Rightarrow>
          preceded_by
            [ZeroGrad, Forward x, LossCriterion y, Backward (cut_layer_gradients self), OptimizerStep,
             GetGradient (advance_below_last (int (length (gradients_list self))) idx)]
            (batch_loop (self\<lparr>cut_layer_gradients := Some g\<rparr>)
               (advance_below_last (int (length (gradients_list self))) idx) rest))"
  unfolding advance_below_last_def by (simp add: Let_def split: sum.splits)

lemma batch_loop_iterations:
  assumes "n = int (length (gradients_list self))"
  shows "iterations (advance_below_last n) idx (calls (batch_loop self idx dl))"
  using assms
proof (induction dl arbitrary: self idx)
  case Nil
  then show ?case by (simp add: returns_def no_more)
next
  case (Cons a dl)
  show ?case
  proof (cases a)
    case (Inl e)
    then show ?thesis by (simp add: raises_def no_more)
  next
    case (Inr b)
    show ?thesis
    proof (cases "\<exists>x y. b = [x, y]")
      case False
      then show ?thesis
        unfolding Inr by (simp add: batch_loop_malformed raises_def no_more del: batch_loop.simps)
    next
      case True
      then obtain x y where b: "b = [x, y]" by blast
      show ?thesis
      proof (cases "list_getitem (gradients_list self) (advance_below_last n idx)")
        case (Inl e)
        then show ?thesis
          unfolding Inr b using Cons.prems
          by (simp add: batch_loop_pair raises_def one_more no_more del: batch_loop.simps)
      next
        case (Inr g)
        have "iterations (advance_below_last n) (advance_below_last n idx)
                (calls (batch_loop (self\<lparr>cut_layer_gradients := Some g\<rparr>) (advance_below_last n idx) dl))"
          using Cons.prems by (intro Cons.IH) simp
        then show ?thesis
          unfolding \<open>a = Inr b\<close> b using Cons.prems Inr
          by (simp add: batch_loop_pair preceded_by_def one_more del: batch_loop.simps)
      qed
    qed
  qed
qed

lemma complete_train_iterations:
  "iterations (advance_below_last (int (length (gradients_list self)))) 1
     (drop 3 (calls (complete_train self config dataset sampler cut_layer)))"
  using batch_loop_iterations [where self = "self\<lparr>cut_layer_gradients := Some g\<rparr>" and idx = 1 for g]
  by (auto simp: complete_train_def raises_def preceded_by_def no_more split: option.splits sum.splits)

lemma batch_loop_all_batches:
  assumes "list_all (\<lambda>b. length b = 2) bs" and "2 \<le> length (gradients_list self)"
    and "1 \<le> idx" and "idx \<le> int (length (gradients_list self)) - 1"
  shows "raised (batch_loop self idx (map Inr bs)) = None
     \<and> forwarded (calls (batch_loop self idx (map Inr bs))) = map hd bs
     \<and> length (calls (batch_loop self idx (map Inr bs))) = 6 * length bs"
  using assms
proof (induction bs arbitrary: self idx)
  case Nil
  then show ?case by (simp add: returns_def)
next
  case (Cons b bs)
  from Cons.prems obtain x y where b: "b = [x, y]"
    by (cases b; cases "tl b"; cases "tl (tl b)") auto
  let ?j = "if idx < int (length (gradients_list self)) - 1 then idx + 1 else idx"
  have j: "1 \<le> ?j" "?j \<le> int (length (gradients_list self)) - 1"
    using Cons.prems by auto
  then have get: "list_getitem (gradients_list self) ?j = Inr (gradients_list self ! nat ?j)"
    by (auto simp: list_getitem_def)
  let ?self = "self\<lparr>cut_layer_gradients := Some (gradients_list self ! nat ?j)\<rparr>"
  have IH: "raised (batch_loop ?self ?j (map Inr bs)) = None
     \<and> forwarded (calls (batch_loop ?self ?j (map Inr bs))) = map hd bs
     \<and> length (calls (batch_loop ?self ?j (map Inr bs))) = 6 * length bs"
    using Cons.prems j by (intro Cons.IH) auto
  show ?case
    using IH get by (simp add: b preceded_by_def Let_def)
qed


lemma complete_train_all_batches:
  assumes "layerdict (model self) cut_layer = Some layer"
    and "config ''batch_size'' = Some batch_size"
    and "get_data_loader (trainer self) batch_size batch_size dataset sampler = Inr (map Inr bs)"
    and "list_all (\<lambda>b. length b = 2) bs"
    and "2 \<le> length (gradients_list self)"
  shows "raised (complete_train self config dataset sampler cut_layer) = None
     \<and> forwarded (calls (complete_train self config dataset sampler cut_layer)) = map hd bs
     \<and> length (calls (complete_train self config dataset sampler cut_layer)) = 3 + 6 * length bs"
proof -
  have "gradients_list self \<noteq> []"
    using assms(5) by auto
  then obtain g where g: "list_getitem (gradients_list self) 0 = Inr g"
    by (simp add: list_getitem_def)
  have "raised (batch_loop (self\<lparr>cut_layer_gradients := Some g\<rparr>) 1 (map Inr bs)) = None
     \<and> forwarded (calls (batch_loop (self\<lparr>cut_layer_gradients := Some g\<rparr>) 1 (map Inr bs))) = map hd bs
     \<and> length (calls (batch_loop (self\<lparr>cut_layer_gradients := Some g\<rparr>) 1 (map Inr bs))) = 6 * length bs"
    using assms(4,5) by (intro batch_loop_all_batches) auto
  then show ?thesis
    using assms(1-3) g by (simp add: complete_train_def preceded_by_def)
qed


subsection \<open>Two gradients, three batches\<close>

text \<open>
  With the gradient list \<open>[g0, g1]\<close> loaded and a data loader that yields exactly three
  batches, the backward passes of \<^verbatim>\<open>complete_train\<close> find \<open>g0\<close>, \<open>g1\<close> and \<open>g1\<close>
  again in \<^verbatim>\<open>cut_layer_gradients\<close>, and the run returns without an exception.
\<close>

lemma two_gradients_three_batches:
  assumes "layerdict (model self) cut_layer = Some layer"
    and "config ''batch_size'' = Some batch_size"
    and "get_data_loader (trainer self) batch_size batch_size dataset sampler =
           Inr [Inr [x0, y0], Inr [x1, y1], Inr [x2, y2]]"
  shows "calls (complete_train (load_gradients self [g0, g1]) config dataset sampler cut_layer) =
           [RegisterBackwardHook cut_layer, ModelTrain, GetGradient 0,
            ZeroGrad, Forward x0, LossCriterion y0, Backward (Some g0), OptimizerStep, GetGradient 1,
            ZeroGrad, Forward x1, LossCriterion y1, Backward (Some g1), OptimizerStep, GetGradient 1,
            ZeroGrad, Forward x2, LossCriterion y2, Backward (Some g1), OptimizerStep, GetGradient 1]
       \<and> raised (complete_train (load_gradients self [g0, g1]) config dataset sampler cut_layer) = None"
  using assms
  by (simp add: complete_train_def load_gradients_def list_getitem_def preceded_by_def
      returns_def raises_def)

text \<open>
  Claim C5, evaluated where it fails. The claim says that with \<open>[g0, g1]\<close> loaded and
  three batches, batch 0 is trained with \<open>g0\<close> applied at the cut layer, batch 1 with
  \<open>g1\<close> and batch 2 with \<open>g1\<close>. With \<open>[10, 11]\<close> loaded and three batches the run
  returns, and its three backward passes find \<open>10\<close>, \<open>11\<close> and \<open>11\<close> loaded; but
  none of them is applied. The hook returns \<^verbatim>\<open>None\<close> in each pass: where the engine
  computed the gradients \<open>(1, 2)\<close>, \<open>(3, 4)\<close> and \<open>(5, 6)\<close> at the cut layer, the
  three backward passes go on with exactly these.
\<close>

theorem two_gradients_loaded_not_applied:
  "applied (calls (complete_train (load_gradients example_self [10, 11])
      [''batch_size'' \<mapsto> 1] example_dataset [0, 1, 2] ''conv2'')) = [Some 10, Some 11, Some 11]
   \<and> raised (complete_train (load_gradients example_self [10, 11])
      [''batch_size'' \<mapsto> 1] example_dataset [0, 1, 2] ''conv2'') = None
   \<and> backward_passes (load_gradients example_self [10, 11]) 0 [(1, 2), (3, 4), (5, 6)]
       (calls (complete_train (load_gradients example_self [10, 11])
          [''batch_size'' \<mapsto> 1] example_dataset [0, 1, 2] ''conv2'')) = [(1, 2), (3, 4), (5, 6)]"
  unfolding example_run
  by (simp add: load_gradients_def list_getitem_def preceded_by_def returns_def raises_def
      backward_hook_call_def apply_gradients_def)

subsection \<open>The gradient each batch is trained with\<close>

text \<open>
  Claim C1, evaluated where it fails. The claim says that batch \<open>b\<close> below the length
  \<open>N\<close> of the gradient list is trained with the gradient at index \<open>b\<close>. With three
  gradients \<open>[10, 11, 12]\<close> and three batches, the backward passes of
  \<^verbatim>\<open>complete_train\<close> find \<open>10\<close>, \<open>12\<close> and \<open>12\<close> loaded: the index starts at 1 and
  is moved on before the gradient for the second batch is read, so the gradient at index 1
  is never used.
\<close>

theorem three_gradients_skip_second:
  "applied (calls (complete_train (load_gradients example_self [10, 11, 12])
      [''batch_size'' \<mapsto> 1] example_dataset [0, 1, 2] ''conv2'')) = [Some 10, Some 12, Some 12]"
  unfolding example_run
  by (simp add: load_gradients_def list_getitem_def preceded_by_def returns_def raises_def)

text \<open>
  Claim C3, evaluated where it fails. The claim says that the index read from a non-empty
  gradient list never exceeds the last index, a list of one gradient included. With the
  one gradient \<open>[10]\<close> the run trains the first batch, then reads the list at index 1
  and ends with \<^verbatim>\<open>IndexError\<close>: the index starts at 1 and the guard against overrun
  only keeps it from growing.
\<close>

theorem single_gradient_index_error:
  "raised (complete_train (load_gradients example_self [10])
      [''batch_size'' \<mapsto> 1] example_dataset [0, 1, 2] ''conv2'') = Some IndexError
   \<and> calls (complete_train (load_gradients example_self [10])
      [''batch_size'' \<mapsto> 1] example_dataset [0, 1, 2] ''conv2'') =
       [RegisterBackwardHook ''conv2'', ModelTrain, GetGradient 0,
        ZeroGrad, Forward [100], LossCriterion [200], Backward (Some 10), OptimizerStep, GetGradient 1]"
  unfolding example_run
  by (simp add: load_gradients_def list_getitem_def preceded_by_def returns_def raises_def)

subsection \<open>The empty gradient list\<close>

text \<open>
  Claim C4. When the gradient list is empty and the set-up of \<^verbatim>\<open>complete_train\<close>
  succeeds (the cut layer is registered in the network, the configuration has a batch
  size, the data loader is built), the run ends with the exception of the first read of
  the list, \<^verbatim>\<open>self.gradients_list[0]\<close>, which is Python's \<^verbatim>\<open>IndexError\<close>; that read
  is the last thing the run does, no batch is trained, and the object is left as it was:
  no gradient is stored at the cut layer.
\<close>

theorem empty_gradient_list_raises:
  assumes "layerdict (model self) cut_layer = Some layer"
    and "config ''batch_size'' = Some batch_size"
    and "get_data_loader (trainer self) batch_size batch_size dataset sampler = Inr data_loader"
    and "gradients_list self = []"
  shows "raised (complete_train self config dataset sampler cut_layer) = Some IndexError
     \<and> calls (complete_train self config dataset sampler cut_layer) =
           [RegisterBackwardHook cut_layer, ModelTrain, GetGradient 0]
     \<and> self_after (complete_train self config dataset sampler cut_layer) = self"
  using assms
  by (simp add: complete_train_def list_getitem_def preceded_by_def raises_def)

theorem empty_gradient_list_raises_witness:
  "gradients_list example_self = []
   \<and> raised (complete_train example_self [''batch_size'' \<mapsto> 1] example_dataset [0, 1, 2] ''conv2'')
       = Some IndexError
   \<and> applied (calls (complete_train example_self [''batch_size'' \<mapsto> 1] example_dataset [0, 1, 2] ''conv2''))
       = []"
  using empty_gradient_list_raises
      [where self = example_self and cut_layer = "''conv2''" and layer = 0
         and config = "[''batch_size'' \<mapsto> 1]" and batch_size = 1
         and dataset = example_dataset and sampler = "[0, 1, 2]",
       OF example_layer example_config example_loader]
  by (simp add: example_self_def Algorithm_init_def)

subsection \<open>The order of the calls in an iteration\<close>

text \<open>
  Claim C8, evaluated where it fails. The claim says that every iteration zeroes the
  gradients, runs the forward pass, computes the loss, runs the backward pass, during
  which the hook substitutes the gradient, applies the optimizer step and then advances
  the index by one unless it is at the last index of the list. With the one gradient
  \<open>[10]\<close> loaded, the first iteration makes its calls in that order, but its backward
  pass, which finds \<open>10\<close> loaded and has computed the gradients \<open>(1, 2)\<close> at the cut
  layer, goes on with \<open>(1, 2)\<close>: the hook has substituted nothing. After the optimizer
  step the index is 1, beyond the last index 0 of the list; it is left there, and the
  read of the list at index 1 ends the run with \<^verbatim>\<open>IndexError\<close> before the second
  batch.
\<close>

theorem iteration_substitutes_nothing:
  "calls (complete_train (load_gradients example_self [10])
      [''batch_size'' \<mapsto> 1] example_dataset [0, 1, 2] ''conv2'') =
       [RegisterBackwardHook ''conv2'', ModelTrain, GetGradient 0,
        ZeroGrad, Forward [100], LossCriterion [200], Backward (Some 10), OptimizerStep, GetGradient 1]
   \<and> backward_passes (load_gradients example_self [10]) 0 [(1, 2)]
       (calls (complete_train (load_gradients example_self [10])
          [''batch_size'' \<mapsto> 1] example_dataset [0, 1, 2] ''conv2'')) = [(1, 2)]
   \<and> forwarded (calls (complete_train (load_gradients example_self [10])
      [''batch_size'' \<mapsto> 1] example_dataset [0, 1, 2] ''conv2'')) = [[100]]
   \<and> raised (complete_train (load_gradients example_self [10])
      [''batch_size'' \<mapsto> 1] example_dataset [0, 1, 2] ''conv2'') = Some IndexError"
  unfolding example_run
  by (simp add: load_gradients_def list_getitem_def preceded_by_def returns_def raises_def
      backward_hook_call_def apply_gradients_def)

subsection \<open>The hook\<close>

text \<open>
  Claim C2, evaluated where it fails. The claim says that with a gradient loaded the
  gradient that propagates further back is the loaded one. With \<open>7\<close> loaded, the hook
  called on the computed gradients \<open>1\<close> (with respect to the input) and \<open>2\<close> (with
  respect to the output) returns \<^verbatim>\<open>None\<close>, and the backward pass goes on with \<open>1\<close>
  and \<open>2\<close>; the loaded gradient is bound to the hook's own parameter name only.
\<close>

theorem hook_discards_loaded_gradient:
  "backward_hook_call (apply_gradients (example_self\<lparr>cut_layer_gradients := Some 7\<rparr>)) 0 1 2 = (1, 2)
   \<and> returned (apply_gradients (example_self\<lparr>cut_layer_gradients := Some 7\<rparr>) 0 1 2) = None
   \<and> grad_output_at_exit (apply_gradients (example_self\<lparr>cut_layer_gradients := Some 7\<rparr>) 0 1 2) = 7"
  by (simp add: backward_hook_call_def apply_gradients_def)

text \<open>
  Claim C9. When no gradient is loaded (\<^verbatim>\<open>cut_layer_gradients\<close> is \<^verbatim>\<open>None\<close>), the hook
  leaves the gradients of the backward pass as they were computed, and its own
  \<^verbatim>\<open>grad_output\<close> is the one it was called with.
\<close>

theorem hook_identity_when_nothing_loaded:
  assumes "cut_layer_gradients self = None"
  shows "backward_hook_call (apply_gradients self) module grad_input grad_output = (grad_input, grad_output)
     \<and> grad_output_at_exit (apply_gradients self module grad_input grad_output) = grad_output"
  using assms by (simp add: backward_hook_call_def apply_gradients_def)

theorem hook_identity_when_nothing_loaded_witness:
  "cut_layer_gradients example_self = None
   \<and> backward_hook_call (apply_gradients example_self) 0 1 2 = (1, 2)"
  using hook_identity_when_nothing_loaded [of example_self 0 1 2]
  by (simp add: example_self_def Algorithm_init_def)

subsection \<open>The feature dataset wrapper\<close>

text \<open>
  Claim C10. \<^verbatim>\<open>FeatureDataset(d)\<close> has the length of \<open>d\<close>; at an index where \<open>d\<close>
  gives an (image, label) pair it gives that pair, and where \<open>d\<close> raises it raises the
  same exception; \<^verbatim>\<open>train\<close> hands the trainer the training set in this wrapper, with
  the sampler and the cut layer as they were given.
\<close>

theorem feature_dataset_identity:
  "FeatureDataset_len (FeatureDataset_init d) = ds_len d
   \<and> (ds_getitem d i = Inr [img, label] \<longrightarrow>
        FeatureDataset_getitem (FeatureDataset_init d) i = Inr (img, label))
   \<and> (ds_getitem d i = Inl e \<longrightarrow> FeatureDataset_getitem (FeatureDataset_init d) i = Inl e)
   \<and> train self d sampler cut_layer = TrainerTrain (FeatureDataset_init d) sampler cut_layer"
  by (simp add: FeatureDataset_len_def FeatureDataset_init_def FeatureDataset_getitem_def train_def)

theorem feature_dataset_identity_witness:
  "ds_getitem example_dataset 1 = Inr [101, 201]
   \<and> FeatureDataset_getitem (FeatureDataset_init example_dataset) 1 = Inr (101, 201)
   \<and> FeatureDataset_len (FeatureDataset_init example_dataset) = 3"
  using feature_dataset_identity [of example_dataset 1 101 201]
  by (simp add: example_dataset_def)


subsection \<open>Feature extraction with batch size 1\<close>

lemma default_collate_single: "default_collate [s] = Inr (map (\<lambda>x. [x]) s)"
proof -
  have "map (\<lambda>k. [s ! k]) [0..<length s] = map (\<lambda>x. [x]) (map ((!) s) [0..<length s])"
    by simp
  also have "\<dots> = map (\<lambda>x. [x]) s"
    by (simp only: map_nth)
  finally show ?thesis
    by (simp add: default_collate_def)
qed

lemma batch_sampler_one: "batch_sampler (Suc 0) idxs = map (\<lambda>i. [i]) idxs"
proof (induction idxs)
  case Nil
  show ?case by (subst batch_sampler.simps) simp
next
  case (Cons i idxs)
  show ?case by (subst batch_sampler.simps) (simp add: Cons.IH)
qed

lemma feature_loop_singletons:
  assumes "\<forall>i\<in>set idxs. \<exists>img label rest feature.
              ds_getitem d i = Inr (img # label # rest)
            \<and> forward_to m [img] cut_layer = Inr [feature]"
  shows "\<exists>fd. feature_loop m cut_layer
            (map (\<lambda>group. case fetch d group of Inl e \<Rightarrow> Inl e | Inr samples \<Rightarrow> default_collate samples)
               (map (\<lambda>i. [i]) idxs)) = Inr fd
          \<and> length fd = length idxs
          \<and> (\<forall>j<length idxs. \<exists>img label rest.
                ds_getitem d (idxs ! j) = Inr (img # label # rest)
              \<and> forward_to m [img] cut_layer = Inr [fst (fd ! j)]
              \<and> snd (fd ! j) = label)"
  using assms
proof (induction idxs)
  case Nil
  then show ?case by simp
next
  case (Cons i idxs)
  from Cons.prems obtain img0 label0 rest0 feature0 where
    i: "ds_getitem d i = Inr (img0 # label0 # rest0)" "forward_to m [img0] cut_layer = Inr [feature0]"
    by auto
  have "\<forall>i\<in>set idxs. \<exists>img label rest feature.
              ds_getitem d i = Inr (img # label # rest)
            \<and> forward_to m [img] cut_layer = Inr [feature]"
    using Cons.prems by simp
  from Cons.IH [OF this] obtain fd where
    fd: "feature_loop m cut_layer
            (map (\<lambda>group. case fetch d group of Inl e \<Rightarrow> Inl e | Inr samples \<Rightarrow> default_collate samples)
               (map (\<lambda>i. [i]) idxs)) = Inr fd"
      "length fd = length idxs"
      "\<forall>j<length idxs. \<exists>img label rest.
                ds_getitem d (idxs ! j) = Inr (img # label # rest)
              \<and> forward_to m [img] cut_layer = Inr [fst (fd ! j)]
              \<and> snd (fd ! j) = label"
    by blast
  have collate: "default_collate [img0 # label0 # rest0] = Inr ([img0] # [label0] # map (\<lambda>x. [x]) rest0)"
    by (simp add: default_collate_single)
  have A: "feature_loop m cut_layer
            (map (\<lambda>group. case fetch d group of Inl e \<Rightarrow> Inl e | Inr samples \<Rightarrow> default_collate samples)
               (map (\<lambda>i. [i]) (i # idxs))) = Inr ((feature0, label0) # fd)"
    using i fd(1) collate by (simp add: list_getitem_def)
  have B: "length ((feature0, label0) # fd) = length (i # idxs)"
    using fd(2) by simp
  have C: "\<forall>j<length (i # idxs). \<exists>img label rest.
                ds_getitem d ((i # idxs) ! j) = Inr (img # label # rest)
              \<and> forward_to m [img] cut_layer = Inr [fst (((feature0, label0) # fd) ! j)]
              \<and> snd (((feature0, label0) # fd) ! j) = label"
  proof (intro allI impI)
    fix j assume "j < length (i # idxs)"
    then show "\<exists>img label rest.
                ds_getitem d ((i # idxs) ! j) = Inr (img # label # rest)
              \<and> forward_to m [img] cut_layer = Inr [fst (((feature0, label0) # fd) ! j)]
              \<and> snd (((feature0, label0) # fd) ! j) = label"
      using i fd(3) by (cases j) auto
  qed
  from A B C show ?case
    by blast
qed


lemma DataLoader_one:
  "DataLoader d 1 idxs =
     Inr (map (\<lambda>group. case fetch d group of Inl e \<Rightarrow> Inl e | Inr samples \<Rightarrow> default_collate samples)
            (map (\<lambda>i. [i]) idxs))"
  by (simp add: DataLoader_def batch_sampler_one)

text \<open>
  Claim C7. \<^verbatim>\<open>extract_features\<close> is run with batch size 1: the trainer has no loader of
  its own and the configured batch size is 1, or its own loader, asked for batch size 1,
  yields what the torch loader of batch size 1 yields. The sampler yields every index of
  the dataset exactly once. Every sample has an image and a label, and the partial forward
  pass on the one-image batch returns one row. Then the function returns a list of as many
  pairs as the dataset has samples, and the \<open>j\<close>-th pair holds the activation of the image
  and, unchanged, the label of the sample at the \<open>j\<close>-th index the sampler yielded.
\<close>

theorem extract_features_batch_size_one:
  assumes "case train_loader (trainer self) of
             None \<Rightarrow> config_batch_size = 1
           | Some f \<Rightarrow> f 1 d sampler True = DataLoader d 1 sampler"
    and "mset sampler = mset [0..<ds_len d]"
    and "\<forall>i<ds_len d. \<exists>img label rest feature.
            ds_getitem d i = Inr (img # label # rest)
          \<and> forward_to (model self) [img] cut_layer = Inr [feature]"
  shows "\<exists>fd. extract_features self config_batch_size d sampler cut_layer = Inr fd
          \<and> length fd = ds_len d
          \<and> (\<forall>j<ds_len d. \<exists>img label rest.
                ds_getitem d (sampler ! j) = Inr (img # label # rest)
              \<and> forward_to (model self) [img] cut_layer = Inr [fst (fd ! j)]
              \<and> snd (fd ! j) = label)"
proof -
  have loader: "get_data_loader (trainer self) 1 config_batch_size d sampler = DataLoader d 1 sampler"
    using assms(1) by (simp add: get_data_loader_def split: option.splits)
  have "set sampler = set [0..<ds_len d]"
    using assms(2) by (rule mset_eq_setD)
  then have in_range: "\<forall>i\<in>set sampler. i < ds_len d"
    by simp
  have len: "length sampler = ds_len d"
    using assms(2) by (metis length_upt mset_eq_length diff_zero)
  have "\<forall>i\<in>set sampler. \<exists>img label rest feature.
            ds_getitem d i = Inr (img # label # rest)
          \<and> forward_to (model self) [img] cut_layer = Inr [feature]"
    using assms(3) in_range by blast
  from feature_loop_singletons [OF this] show ?thesis
    unfolding extract_features_def loader DataLoader_one len by simp
qed

theorem extract_features_batch_size_one_witness:
  "mset [2, 0, 1] = mset [0..<ds_len example_dataset]
   \<and> (\<exists>fd. extract_features example_self 1 example_dataset [2, 0, 1] ''conv2'' = Inr fd
          \<and> length fd = 3 \<and> snd (fd ! 0) = 202)"
proof -
  have sampler: "mset [2, 0, 1] = mset [0..<ds_len example_dataset]"
  proof -
    have "[0..<3] = [0, 1, 2::nat]"
      by code_simp
    then show ?thesis
      by (simp add: example_dataset_def add_mset_commute)
  qed
  have loader: "case train_loader (trainer example_self) of
             None \<Rightarrow> (1::nat) = 1
           | Some f \<Rightarrow> f 1 example_dataset [2, 0, 1] True = DataLoader example_dataset 1 [2, 0, 1]"
    by (simp add: example_self_def Algorithm_init_def example_trainer_def)
  have samples: "\<forall>i<ds_len example_dataset. \<exists>img label rest feature.
            ds_getitem example_dataset i = Inr (img # label # rest)
          \<and> forward_to (model example_self) [img] ''conv2'' = Inr [feature]"
    by (simp add: example_dataset_def example_self_def Algorithm_init_def example_model_def)
  from extract_features_batch_size_one [OF loader sampler samples]
  obtain fd where fd: "extract_features example_self 1 example_dataset [2, 0, 1] ''conv2'' = Inr fd"
    "length fd = ds_len example_dataset"
    "\<forall>j<ds_len example_dataset. \<exists>img label rest.
        ds_getitem example_dataset ([2, 0, 1] ! j) = Inr (img # label # rest)
      \<and> forward_to (model example_self) [img] ''conv2'' = Inr [fst (fd ! j)]
      \<and> snd (fd ! j) = label"
    by blast
  from fd(3) [rule_format, of 0] have "snd (fd ! 0) = 202"
    by (auto simp: example_dataset_def)
  with fd(1,2) sampler show ?thesis
    by (simp add: example_dataset_def)
qed

subsection \<open>Loading gradients twice\<close>

text \<open>The copy that \<open>deepcopy\<close> makes of a list of tensors: a new list of new
  tensors, all behind the old end of the store, nothing of the old store changed.\<close>

lemma tensor_at_same:
  assumes "a < length h" and "a < length h'" and "h' ! a = h ! a"
  shows "tensor_at h' a = tensor_at h a"
  using assms by (simp add: tensor_at_def)

lemma tensor_at_Some:
  "tensor_at h a = Some t \<longleftrightarrow> a < length h \<and> h ! a = Tensor t"
  by (auto simp: tensor_at_def split: pyobj.splits)

lemma tensors_at_valid:
  assumes "tensors_at h as = Some ts"
  shows "\<forall>a\<in>set as. a < length h \<and> (\<exists>t. h ! a = Tensor t)"
  using assms
proof (induction as arbitrary: ts)
  case Nil
  then show ?case by simp
next
  case (Cons a as)
  then show ?case
    by (auto simp: tensor_at_Some split: option.splits)
qed

lemma tensors_at_same:
  assumes "tensors_at h as = Some ts"
    and "\<forall>a\<in>set as. a < length h' \<and> h' ! a = h ! a"
  shows "tensors_at h' as = Some ts"
  using assms
proof (induction as arbitrary: ts)
  case Nil
  then show ?case by simp
next
  case (Cons a as)
  from Cons.prems(1) obtain t ts' where
    t: "tensor_at h a = Some t" and ts': "tensors_at h as = Some ts'" and ts: "ts = t # ts'"
    by (auto split: option.splits)
  have "tensor_at h' a = Some t"
    using t Cons.prems(2) by (simp add: tensor_at_Some)
  moreover have "tensors_at h' as = Some ts'"
    using ts' Cons.prems(2) by (intro Cons.IH) auto
  ultimately show ?case
    using ts by simp
qed

lemma tensors_at_snoc:
  assumes "tensors_at h as = Some ts" and "tensor_at h b = Some t"
  shows "tensors_at h (as @ [b]) = Some (ts @ [t])"
  using assms
proof (induction as arbitrary: ts)
  case Nil
  then show ?case by simp
next
  case (Cons a as)
  then show ?case
    by (auto split: option.splits)
qed

lemma tensors_at_length:
  assumes "tensors_at h as = Some ts"
  shows "length ts = length as"
  using assms by (induction as arbitrary: ts) (auto split: option.splits)


lemma deepcopy_tensor_step:
  assumes "a < length hc" and "hc ! a = Tensor t" and "y < length hc"
    and "\<forall>b. memo a = Some b \<longrightarrow> y < b \<and> b < length hc \<and> hc ! b = Tensor t"
  shows "\<exists>h' memo' b. deepcopy (Suc n) hc memo a = Some (h', memo', b)
          \<and> length hc \<le> length h' \<and> (\<forall>i<length hc. h' ! i = hc ! i)
          \<and> y < b \<and> b < length h' \<and> h' ! b = Tensor t
          \<and> (\<forall>a' b'. memo' a' = Some b' \<longrightarrow> memo a' = Some b' \<or> a' = a \<and> b' = b)"
proof (cases "memo a")
  case None
  then show ?thesis
    using assms(1-3) by (simp add: nth_append)
next
  case (Some b)
  then show ?thesis
    using assms(4) by simp
qed

lemma list_append_at:
  assumes "y < length h" and "h ! y = PyList acc"
  shows "list_append h y b = h[y := PyList (acc @ [b])]"
  using assms by (simp add: list_append_def)

lemma deepcopy_items_tensors:
  assumes "tensors_at h0 items = Some ts"
    and "length h0 \<le> y" and "y < length hc"
    and "\<forall>a<length h0. hc ! a = h0 ! a"
    and "hc ! y = PyList acc"
    and "tensors_at hc acc = Some tacc" and "\<forall>b\<in>set acc. y < b"
    and "\<forall>a b t. memo a = Some b \<longrightarrow> a < length h0 \<longrightarrow> h0 ! a = Tensor t \<longrightarrow>
           y < b \<and> b < length hc \<and> hc ! b = Tensor t"
  shows "\<exists>hf mf bs. deepcopy_items (Suc n) hc memo y items = Some (hf, mf)
          \<and> length hc \<le> length hf \<and> (\<forall>a<length h0. hf ! a = h0 ! a)
          \<and> hf ! y = PyList (acc @ bs)
          \<and> tensors_at hf (acc @ bs) = Some (tacc @ ts) \<and> (\<forall>b\<in>set bs. y < b)"
  using assms
proof (induction items arbitrary: ts hc memo acc tacc)
  case Nil
  then show ?case by simp
next
  case (Cons a items)
  from Cons.prems(1) obtain t ts' where
    t: "tensor_at h0 a = Some t" and ts': "tensors_at h0 items = Some ts'" and ts: "ts = t # ts'"
    by (auto split: option.splits)
  from t have a: "a < length h0" "h0 ! a = Tensor t"
    by (simp_all add: tensor_at_Some)
  have a_hc: "a < length hc" "hc ! a = Tensor t"
    using a Cons.prems(2,3,4) by auto
  have "\<forall>b. memo a = Some b \<longrightarrow> y < b \<and> b < length hc \<and> hc ! b = Tensor t"
    using Cons.prems(8) a by blast
  from deepcopy_tensor_step [where memo = memo and n = n, OF a_hc \<open>y < length hc\<close> this]
  obtain h' memo' b where
    step: "deepcopy (Suc n) hc memo a = Some (h', memo', b)"
    and len: "length hc \<le> length h'" and same: "\<forall>i<length hc. h' ! i = hc ! i"
    and b: "y < b" "b < length h'" "h' ! b = Tensor t"
    and memo': "\<forall>a' b'. memo' a' = Some b' \<longrightarrow> memo a' = Some b' \<or> a' = a \<and> b' = b"
    by blast
  let ?h = "h'[y := PyList (acc @ [b])]"
  have y': "y < length h'" "h' ! y = PyList acc"
    using Cons.prems(3,5) len same by auto
  have app: "list_append h' y b = ?h"
    using y' by (rule list_append_at)
  have acc_valid: "\<forall>b'\<in>set acc. b' < length hc"
    using tensors_at_valid [OF Cons.prems(6)] by blast
  have P2: "y < length ?h"
    using y' by simp
  have P3: "\<forall>a<length h0. ?h ! a = h0 ! a"
    using Cons.prems(2,3,4) same by auto
  have P4: "?h ! y = PyList (acc @ [b])"
    using y' by simp
  have "tensors_at ?h acc = Some tacc"
  proof (rule tensors_at_same [OF Cons.prems(6)])
    show "\<forall>a\<in>set acc. a < length ?h \<and> ?h ! a = hc ! a"
      using acc_valid Cons.prems(7) len same by auto
  qed
  moreover have "tensor_at ?h b = Some t"
    using b by (simp add: tensor_at_Some)
  ultimately have P5: "tensors_at ?h (acc @ [b]) = Some (tacc @ [t])"
    by (rule tensors_at_snoc)
  have P6: "\<forall>b'\<in>set (acc @ [b]). y < b'"
    using Cons.prems(7) b by simp
  have P7: "\<forall>a' b' t'. memo' a' = Some b' \<longrightarrow> a' < length h0 \<longrightarrow> h0 ! a' = Tensor t' \<longrightarrow>
           y < b' \<and> b' < length ?h \<and> ?h ! b' = Tensor t'"
  proof (intro allI impI)
    fix a' b' t'
    assume m: "memo' a' = Some b'" and a': "a' < length h0" "h0 ! a' = Tensor t'"
    from memo' m consider "memo a' = Some b'" | "a' = a" "b' = b"
      by blast
    then show "y < b' \<and> b' < length ?h \<and> ?h ! b' = Tensor t'"
    proof cases
      case 1
      with Cons.prems(8) a' have "y < b'" "b' < length hc" "hc ! b' = Tensor t'"
        by blast+
      then show ?thesis
        using len same by auto
    next
      case 2
      then show ?thesis
        using a a' b by auto
    qed
  qed
  from Cons.IH [OF ts' \<open>length h0 \<le> y\<close> P2 P3 P4 P5 P6 P7]
  obtain hf mf bs where
    rest: "deepcopy_items (Suc n) ?h memo' y items = Some (hf, mf)"
    and R: "length ?h \<le> length hf" "\<forall>a<length h0. hf ! a = h0 ! a"
      "hf ! y = PyList ((acc @ [b]) @ bs)"
      "tensors_at hf ((acc @ [b]) @ bs) = Some ((tacc @ [t]) @ ts')" "\<forall>b\<in>set bs. y < b"
    by blast
  have "deepcopy_items (Suc n) hc memo y (a # items) = Some (hf, mf)"
    using step app rest by simp
  moreover have "length hc \<le> length hf"
    using R(1) len by simp
  moreover have "hf ! y = PyList (acc @ (b # bs))"
    using R(3) by simp
  moreover have "tensors_at hf (acc @ (b # bs)) = Some (tacc @ ts)"
    using R(4) ts by simp
  moreover have "\<forall>b'\<in>set (b # bs). y < b'"
    using R(5) b by simp
  ultimately show ?case
    using R(2) by blast
qed


lemma gradient_sequence_Some:
  "gradient_sequence h r = Some gs \<longleftrightarrow>
     r < length h \<and> (\<exists>items. h ! r = PyList items \<and> tensors_at h items = Some gs)"
  by (auto simp: gradient_sequence_def split: pyobj.splits)

lemma deepcopy_gradient_sequence:
  assumes "gradient_sequence h G = Some gs"
  shows "\<exists>h' memo' bs. deepcopy (Suc (Suc n)) h Map.empty G = Some (h', memo', length h)
          \<and> length h < length h' \<and> (\<forall>a<length h. h' ! a = h ! a)
          \<and> h' ! length h = PyList bs \<and> tensors_at h' bs = Some gs
          \<and> (\<forall>b\<in>set bs. length h < b)"
proof -
  from assms obtain items where
    G: "G < length h" "h ! G = PyList items" and items: "tensors_at h items = Some gs"
    by (auto simp: gradient_sequence_Some)
  let ?hc = "h @ [PyList []]"
  let ?memo = "Map.empty(G \<mapsto> length h)"
  have P4: "\<forall>a<length h. ?hc ! a = h ! a"
    by (simp add: nth_append)
  have P8: "\<forall>a b t. ?memo a = Some b \<longrightarrow> a < length h \<longrightarrow> h ! a = Tensor t \<longrightarrow>
           length h < b \<and> b < length ?hc \<and> ?hc ! b = Tensor t"
    using G by auto
  from deepcopy_items_tensors
    [where ?h0.0 = h and hc = ?hc and y = "length h" and acc = "[]" and tacc = "[]"
       and memo = ?memo and n = n, OF items _ _ P4 _ _ _ P8]
  obtain hf mf bs where
    "deepcopy_items (Suc n) ?hc ?memo (length h) items = Some (hf, mf)"
    "length ?hc \<le> length hf" "\<forall>a<length h. hf ! a = h ! a"
    "hf ! length h = PyList ([] @ bs)" "tensors_at hf ([] @ bs) = Some ([] @ gs)"
    "\<forall>b\<in>set bs. length h < b"
    by auto
  then show ?thesis
    using G by auto
qed

lemma load_gradients_store_copy:
  assumes "gradient_sequence h G = Some gs"
  shows "\<exists>h' self' bs. load_gradients_store h self G = Some (h', self')
          \<and> gradients_list_at self' = length h
          \<and> length h < length h' \<and> (\<forall>a<length h. h' ! a = h ! a)
          \<and> h' ! length h = PyList bs \<and> tensors_at h' bs = Some gs
          \<and> (\<forall>b\<in>set bs. length h < b)"
proof -
  have "recursion_limit = Suc (Suc 998)"
    by (simp add: recursion_limit_def)
  with deepcopy_gradient_sequence [OF assms, of 998] show ?thesis
    by (auto simp: load_gradients_store_def)
qed

lemma gradient_sequence_kept:
  assumes "gradient_sequence h G = Some gs"
    and "length h \<le> length h'" and "\<forall>a<length h. h' ! a = h ! a"
  shows "gradient_sequence h' G = Some gs"
proof -
  from assms(1) obtain items where
    G: "G < length h" "h ! G = PyList items" and items: "tensors_at h items = Some gs"
    by (auto simp: gradient_sequence_Some)
  have "tensors_at h' items = Some gs"
    using tensors_at_valid [OF items] assms(2,3) by (intro tensors_at_same [OF items]) auto
  then show ?thesis
    using G assms(2,3) by (auto simp: gradient_sequence_Some)
qed

lemma mutate_frame:
  assumes "target m < L"
  shows "length (mutate h m) = length h \<and> (\<forall>b. L \<le> b \<longrightarrow> mutate h m ! b = h ! b)"
  using assms by (cases m) (auto split: pyobj.splits)

lemma mutations_frame:
  assumes "list_all (\<lambda>m. target m < L) ms"
  shows "length (foldl mutate h ms) = length h \<and> (\<forall>b. L \<le> b \<longrightarrow> foldl mutate h ms ! b = h ! b)"
  using assms
proof (induction ms arbitrary: h)
  case Nil
  then show ?case by simp
next
  case (Cons m ms)
  then show ?case
    using mutate_frame [of m L h] by simp
qed

text \<open>
  Claim C6. For gradient sequences \<open>gs1\<close> and \<open>gs2\<close>, \<^verbatim>\<open>load_gradients\<close> of the
  first and then of the second leaves the stored list equal to \<open>gs2\<close>, with nothing of
  \<open>gs1\<close> left. On the store: both calls return, the stored reference then denotes
  \<open>gs2\<close>, and it still does after any sequence of mutations of objects that existed
  before the second call, among them the caller's list and the tensors in it: the
  stored list is a deep copy that shares nothing with the caller's sequence.
\<close>

theorem load_gradients_twice:
  assumes "gradient_sequence h G1 = Some gs1" and "gradient_sequence h G2 = Some gs2"
  shows "gradients_list (load_gradients (load_gradients s gs1) gs2) = gs2
       \<and> (\<exists>h1 self1 h2 self2.
            load_gradients_store h self G1 = Some (h1, self1)
          \<and> load_gradients_store h1 self1 G2 = Some (h2, self2)
          \<and> length h \<le> length h1
          \<and> gradient_sequence h2 (gradients_list_at self2) = Some gs2
          \<and> (\<forall>ms. list_all (\<lambda>m. target m < length h1) ms \<longrightarrow>
                 gradient_sequence (foldl mutate h2 ms) (gradients_list_at self2) = Some gs2))"
proof -
  from load_gradients_store_copy [OF assms(1), of self] obtain h1 self1 where
    first: "load_gradients_store h self G1 = Some (h1, self1)"
    and h1: "length h < length h1" "\<forall>a<length h. h1 ! a = h ! a"
    by blast
  have h1_le: "length h \<le> length h1"
    using h1(1) by (rule less_imp_le)
  have "gradient_sequence h1 G2 = Some gs2"
    using assms(2) h1_le h1(2) by (rule gradient_sequence_kept)
  from load_gradients_store_copy [OF this, of self1] obtain h2 self2 bs where
    second: "load_gradients_store h1 self1 G2 = Some (h2, self2)"
    and at: "gradients_list_at self2 = length h1"
    and h2: "length h1 < length h2" "h2 ! length h1 = PyList bs" "tensors_at h2 bs = Some gs2"
      "\<forall>b\<in>set bs. length h1 < b"
    by blast
  have stored: "gradient_sequence h2 (gradients_list_at self2) = Some gs2"
    unfolding at gradient_sequence_Some using h2(1,2,3) by blast
  have kept: "gradient_sequence (foldl mutate h2 ms) (gradients_list_at self2) = Some gs2"
    if ms: "list_all (\<lambda>m. target m < length h1) ms" for ms
  proof -
    define hm where "hm = foldl mutate h2 ms"
    from mutations_frame [OF ms, of h2] have
      len: "length hm = length h2" and same: "\<forall>b. length h1 \<le> b \<longrightarrow> hm ! b = h2 ! b"
      unfolding hm_def by blast+
    have "tensors_at hm bs = Some gs2"
    proof (rule tensors_at_same [OF h2(3)], intro ballI conjI)
      fix a
      assume a: "a \<in> set bs"
      from tensors_at_valid [OF h2(3)] a have "a < length h2"
        by blast
      then show "a < length hm"
        unfolding len .
      from h2(4) a have "length h1 < a"
        by blast
      then have "length h1 \<le> a"
        by (rule less_imp_le)
      with same show "hm ! a = h2 ! a"
        by blast
    qed
    moreover have "hm ! length h1 = PyList bs"
      using same h2(2) by simp
    moreover have "length h1 < length hm"
      unfolding len by (rule h2(1))
    ultimately have "gradient_sequence hm (length h1) = Some gs2"
      unfolding gradient_sequence_Some by blast
    then show ?thesis
      unfolding at hm_def .
  qed
  have on_store: "\<exists>h1 self1 h2 self2.
            load_gradients_store h self G1 = Some (h1, self1)
          \<and> load_gradients_store h1 self1 G2 = Some (h2, self2)
          \<and> length h \<le> length h1
          \<and> gradient_sequence h2 (gradients_list_at self2) = Some gs2
          \<and> (\<forall>ms. list_all (\<lambda>m. target m < length h1) ms \<longrightarrow>
                 gradient_sequence (foldl mutate h2 ms) (gradients_list_at self2) = Some gs2)"
    using first second h1_le stored kept by blast
  have on_values: "gradients_list (load_gradients (load_gradients s gs1) gs2) = gs2"
    by (simp add: load_gradients_def)
  from on_values on_store show ?thesis
    by (rule conjI)
qed

theorem load_gradients_twice_witness:
  "gradient_sequence example_store 3 = Some [10, 11]
   \<and> gradient_sequence example_store 5 = Some [12, 12]
   \<and> gradients_list (load_gradients (load_gradients example_self [10, 11]) [12, 12]) = [12, 12]
   \<and> (\<exists>h1 self1 h2 self2.
          load_gradients_store example_store example_refs 3 = Some (h1, self1)
        \<and> load_gradients_store h1 self1 5 = Some (h2, self2)
        \<and> gradient_sequence h2 (gradients_list_at self2) = Some [12, 12]
        \<and> gradient_sequence (foldl mutate h2 [SetTensor 4 99, SetItems 5 []]) 5 = Some []
        \<and> gradient_sequence (foldl mutate h2 [SetTensor 4 99, SetItems 5 []]) (gradients_list_at self2)
            = Some [12, 12])"
proof -
  have G1: "gradient_sequence example_store 3 = Some [10, 11]"
    by (simp add: example_store_def gradient_sequence_def tensor_at_def)
  have G2: "gradient_sequence example_store 5 = Some [12, 12]"
    by (simp add: example_store_def gradient_sequence_def tensor_at_def)
  note both = load_gradients_twice [where s = example_self and self = example_refs, OF G1 G2]
  from both [THEN conjunct2] obtain h1 self1 h2 self2 where
    loads: "load_gradients_store example_store example_refs 3 = Some (h1, self1)"
      "load_gradients_store h1 self1 5 = Some (h2, self2)"
    and len: "length example_store \<le> length h1"
    and stored: "gradient_sequence h2 (gradients_list_at self2) = Some [12, 12]"
    and kept: "\<forall>ms. list_all (\<lambda>m. target m < length h1) ms \<longrightarrow>
                 gradient_sequence (foldl mutate h2 ms) (gradients_list_at self2) = Some [12, 12]"
    by blast
  have "list_all (\<lambda>m. target m < length h1) [SetTensor 4 (99::nat), SetItems 5 []]"
    using len by (simp add: example_store_def)
  with kept have after: "gradient_sequence (foldl mutate h2 [SetTensor 4 99, SetItems 5 []])
      (gradients_list_at self2) = Some [12, 12]"
    by blast
  have h1: "h1 = example_store @ [PyList [7, 8], Tensor 10, Tensor 11]"
    using loads(1)
    by (simp add: load_gradients_store_def recursion_limit_def example_store_def list_append_def
        eval_nat_numeral split: option.splits prod.splits)
  have caller: "gradient_sequence (foldl mutate h2 [SetTensor 4 99, SetItems 5 []]) 5 = Some []"
    using loads(2) unfolding h1
    by (auto simp: load_gradients_store_def recursion_limit_def example_store_def list_append_def
        eval_nat_numeral gradient_sequence_def split: option.splits prod.splits)
  have on_store: "\<exists>h1 self1 h2 self2.
          load_gradients_store example_store example_refs 3 = Some (h1, self1)
        \<and> load_gradients_store h1 self1 5 = Some (h2, self2)
        \<and> gradient_sequence h2 (gradients_list_at self2) = Some [12, 12]
        \<and> gradient_sequence (foldl mutate h2 [SetTensor 4 99, SetItems 5 []]) 5 = Some []
        \<and> gradient_sequence (foldl mutate h2 [SetTensor 4 99, SetItems 5 []]) (gradients_list_at self2)
            = Some [12, 12]"
    using loads stored caller after by blast
  from G1 G2 both [THEN conjunct1] on_store show ?thesis
    by (intro conjI)
qed

end
